theory Spec2Isabelle
  imports Complex_Main "HOL-Library.Word" "HOL-Library.Sublist"
begin

section \<open>Data model of adcsSSP.cpp\<close>

text \<open>
  \<^verbatim>\<open>enum class ADCSMode : uint8_t\<close> and \<^verbatim>\<open>FaultManager::FaultType\<close>, the constructors in
  the order of the source.
\<close>

datatype ADCSMode = DETUMBLING | SUN_ACQUISITION | NOMINAL_POINTING | SAFE_MODE | FAULT_RECOVERY

datatype FaultType =
  NONE | HIGH_ANGULAR_RATE | LOW_POWER | SENSOR_ANOMALY | CRITICAL | SOFTWARE_RESET_REQUIRED

subsection \<open>Single-precision values\<close>

text \<open>
  A C++ \<^verbatim>\<open>float\<close> is a finite value (an exact rational; both zeros are \<open>Finite 0\<close>), an
  infinity or a NaN. The source only takes absolute values of floats and compares them;
  both operations are exact in IEEE 754, so they are functions on the values. A comparison
  with a NaN operand is false.
\<close>

datatype float32 = Finite rat | PosInf | NegInf | NaN

fun fabs :: "float32 \<Rightarrow> float32" where
  "fabs (Finite q) = Finite \<bar>q\<bar>"
| "fabs PosInf = PosInf"
| "fabs NegInf = PosInf"
| "fabs NaN = NaN"

fun fless :: "float32 \<Rightarrow> float32 \<Rightarrow> bool" where
  "fless NaN b = False"
| "fless a NaN = False"
| "fless (Finite a) (Finite b) = (a < b)"
| "fless a NegInf = False"
| "fless NegInf b = True"
| "fless PosInf b = False"
| "fless (Finite a) PosInf = True"

definition fgreater :: "float32 \<Rightarrow> float32 \<Rightarrow> bool" where
  "fgreater a b = fless b a"

text \<open>
  Conversion of a \<^verbatim>\<open>uint32_t\<close> to \<^verbatim>\<open>float\<close>: exact below \<open>2 ^ 24\<close>, otherwise
  rounded to 24 significant bits, to nearest with ties to even (the default rounding of
  the ARM Cortex target the source names). \<open>e\<close> is the number of bits dropped.
\<close>

definition uint32_to_float :: "32 word \<Rightarrow> float32" where
  "uint32_to_float w =
     (let n = uint w in
      if n < 2 ^ 24 then Finite (of_int n)
      else
        let e = length (filter (\<lambda>k. 2 ^ (24 + k) \<le> n) [0..<8]);
            q = n div 2 ^ e;
            r = n mod 2 ^ e;
            h = 2 ^ (e - 1);
            q' = (if h < r \<or> (r = h \<and> odd q) then q + 1 else q)
        in Finite (of_int (q' * 2 ^ e)))"

subsection \<open>The live state and the persisted record\<close>

text \<open>
  \<^verbatim>\<open>struct ADCSState\<close> (lines 38 to 45) and \<^verbatim>\<open>NonVolatileMemory::ADCSState\<close> (lines 10
  to 19). \<^verbatim>\<open>std::array<float, 3>\<close> is a triple. Neither struct has a field for a previous
  operational mode or for a reset counter.
\<close>

record ADCSState =
  current_mode :: ADCSMode
  mode_entry_time :: "32 word"
  angular_velocity :: "float32 \<times> float32 \<times> float32"
  power_level :: float32

record NVM_ADCSState =
  nvm_current_mode :: ADCSMode
  nvm_mode_entry_time :: "32 word"
  nvm_angular_velocity :: "float32 \<times> float32 \<times> float32"
  nvm_power_level :: float32
  nvm_timestamp :: float32
  nvm_checksum :: float32

section \<open>FaultManager\<close>

text \<open>
  \<^verbatim>\<open>constexpr float MAX_ANGULAR_RATE = 0.1f\<close> and \<^verbatim>\<open>LOW_POWER_THRESHOLD = 4.0f\<close>. The
  single-precision value of the literal \<^verbatim>\<open>0.1f\<close> is \<open>13421773 / 2 ^ 27\<close>.
\<close>

definition MAX_ANGULAR_RATE :: float32 where
  "MAX_ANGULAR_RATE = Finite (13421773 / 134217728)"

definition LOW_POWER_THRESHOLD :: float32 where
  "LOW_POWER_THRESHOLD = Finite 4"

definition check_angular_rate :: "ADCSState \<Rightarrow> bool" where
  "check_angular_rate state =
     (case angular_velocity state of (w0, w1, w2) \<Rightarrow>
        fgreater (fabs w0) MAX_ANGULAR_RATE \<or>
        fgreater (fabs w1) MAX_ANGULAR_RATE \<or>
        fgreater (fabs w2) MAX_ANGULAR_RATE)"

definition check_power_level :: "ADCSState \<Rightarrow> bool" where
  "check_power_level state = fless (power_level state) LOW_POWER_THRESHOLD"

text \<open>
  \<^verbatim>\<open>check_sensors()\<close> stands for the sensor consistency check, whose implementation the
  source leaves open (its placeholder body returns \<^verbatim>\<open>false\<close>); its answer is the
  argument \<open>sensors_anomalous\<close>.
\<close>

definition check_faults :: "bool \<Rightarrow> ADCSState \<Rightarrow> FaultType" where
  "check_faults sensors_anomalous state =
     (if check_angular_rate state then HIGH_ANGULAR_RATE
      else if check_power_level state then LOW_POWER
      else if sensors_anomalous then SENSOR_ANOMALY
      else NONE)"

section \<open>StateMachine\<close>

subsection \<open>Effects and collaborators\<close>

text \<open>
  The effects of the state machine on its surroundings are recorded in order: the sensor
  reads, the mode routines, the calls of \<^verbatim>\<open>NonVolatileMemory::write\<close> (with the record
  passed), the two reset checks, the actuator and reset commands and the watchdog calls.
\<close>

datatype event =
    Call_read_imu
  | Call_read_power_system
  | Call_execute_mode_exit ADCSMode
  | Call_run_detumbling
  | Call_run_sun_acquisition
  | Call_run_nominal_pointing
  | Call_run_safe_mode
  | NVM_write NVM_ADCSState
  | Call_check_for_software_reset
  | Call_check_for_hardware_reset
  | Call_engage_magnetorquers
  | Call_power_system_slowdown
  | Call_reset_sensor_array
  | Call_execute_software_reset
  | Call_execute_hardware_reset
  | Watchdog_initialize
  | Watchdog_refresh

text \<open>
  The machine: the member \<^verbatim>\<open>current_state\<close> and the effects so far. The members
  \<^verbatim>\<open>fault_checker\<close> and \<^verbatim>\<open>watchdog\<close> hold no data.
\<close>

record StateMachine =
  current_state :: ADCSState
  trace :: "event list"

text \<open>
  The routines whose bodies the source leaves to the hardware layer, as parameters of one
  control cycle. \<^verbatim>\<open>read_imu\<close>, \<^verbatim>\<open>read_power_system\<close> and \<^verbatim>\<open>check_sensors\<close> have
  placeholder bodies (returning zeros, \<^verbatim>\<open>0.0f\<close> and \<^verbatim>\<open>false\<close>); \<^verbatim>\<open>get_current_time\<close>
  (a \<^verbatim>\<open>uint16_t\<close>) and the predicates have a comment for a body. The predicates are
  member functions, so they see the machine; \<^verbatim>\<open>is_corrupt\<close> and \<^verbatim>\<open>is_state_safe\<close> also
  take a mode.
\<close>

record collaborators =
  read_imu :: "float32 \<times> float32 \<times> float32"
  read_power_system :: float32
  check_sensors :: bool
  get_current_time :: "16 word"
  is_corrupt :: "StateMachine \<Rightarrow> ADCSMode \<Rightarrow> bool"
  is_state_safe :: "StateMachine \<Rightarrow> ADCSMode \<Rightarrow> bool"
  is_angular_rate_stable :: "StateMachine \<Rightarrow> bool"
  sun_vectors_aligned :: "StateMachine \<Rightarrow> bool"
  power_restored :: "StateMachine \<Rightarrow> bool"
  fault_recovery_complete :: "StateMachine \<Rightarrow> bool"

definition emit :: "event \<Rightarrow> StateMachine \<Rightarrow> StateMachine" where
  "emit e sm = sm\<lparr>trace := trace sm @ [e]\<rparr>"

definition set_current_mode :: "ADCSMode \<Rightarrow> StateMachine \<Rightarrow> StateMachine" where
  "set_current_mode m sm = sm\<lparr>current_state := (current_state sm)\<lparr>current_mode := m\<rparr>\<rparr>"

text \<open>The effects a step \<open>f\<close> adds when it runs from \<open>sm\<close>.\<close>

definition emitted :: "(StateMachine \<Rightarrow> StateMachine) \<Rightarrow> StateMachine \<Rightarrow> event list" where
  "emitted f sm = drop (length (trace sm)) (trace (f sm))"

fun nvm_writes :: "event list \<Rightarrow> NVM_ADCSState list" where
  "nvm_writes [] = []"
| "nvm_writes (NVM_write r # es) = r # nvm_writes es"
| "nvm_writes (e # es) = nvm_writes es"

subsection \<open>Persistence\<close>

text \<open>
  \<^verbatim>\<open>NonVolatileMemory::write\<close> has a comment for a body: a call is recorded with the
  record it is given. \<^verbatim>\<open>save_persistent_state\<close> (lines 229 to 235) builds that record
  with a designated initialiser naming \<^verbatim>\<open>current_mode\<close> and \<^verbatim>\<open>timestamp\<close> only; the
  members it does not name are value-initialised, that is, zero.
\<close>

definition NonVolatileMemory_write :: "NVM_ADCSState \<Rightarrow> StateMachine \<Rightarrow> StateMachine" where
  "NonVolatileMemory_write state sm = emit (NVM_write state) sm"

definition save_persistent_state :: "StateMachine \<Rightarrow> StateMachine" where
  "save_persistent_state sm =
     (let nvm_state =
        \<lparr>nvm_current_mode = current_mode (current_state sm),
         nvm_mode_entry_time = 0,
         nvm_angular_velocity = (Finite 0, Finite 0, Finite 0),
         nvm_power_level = Finite 0,
         nvm_timestamp = uint32_to_float (mode_entry_time (current_state sm)),
         nvm_checksum = Finite 0\<rparr>
      in NonVolatileMemory_write nvm_state sm)"

text \<open>The record \<^verbatim>\<open>save_persistent_state\<close> passes to the write when the state is \<open>s\<close>.\<close>

definition persistent_record :: "ADCSState \<Rightarrow> NVM_ADCSState" where
  "persistent_record s =
     \<lparr>nvm_current_mode = current_mode s,
      nvm_mode_entry_time = 0,
      nvm_angular_velocity = (Finite 0, Finite 0, Finite 0),
      nvm_power_level = Finite 0,
      nvm_timestamp = uint32_to_float (mode_entry_time s),
      nvm_checksum = Finite 0\<rparr>"

subsection \<open>Mode routines\<close>

definition run_detumbling :: "StateMachine \<Rightarrow> StateMachine" where
  "run_detumbling sm = emit Call_run_detumbling sm"

definition run_sun_acquisition :: "StateMachine \<Rightarrow> StateMachine" where
  "run_sun_acquisition sm = emit Call_run_sun_acquisition sm"

definition run_nominal_pointing :: "StateMachine \<Rightarrow> StateMachine" where
  "run_nominal_pointing sm = emit Call_run_nominal_pointing sm"

definition run_safe_mode :: "collaborators \<Rightarrow> StateMachine \<Rightarrow> StateMachine" where
  "run_safe_mode c sm =
     (let sm1 = save_persistent_state (emit Call_run_safe_mode sm)
      in if fault_recovery_complete c sm1 then sm1 else sm1)"

definition execute_state_behavior :: "collaborators \<Rightarrow> ADCSMode \<Rightarrow> StateMachine \<Rightarrow> StateMachine" where
  "execute_state_behavior c mode sm =
     (case mode of
        DETUMBLING \<Rightarrow> run_detumbling sm
      | SUN_ACQUISITION \<Rightarrow> run_sun_acquisition sm
      | NOMINAL_POINTING \<Rightarrow> run_nominal_pointing sm
      | SAFE_MODE \<Rightarrow> run_safe_mode c sm
      | FAULT_RECOVERY \<Rightarrow> sm)"

definition execute_mode_entry :: "collaborators \<Rightarrow> ADCSMode \<Rightarrow> StateMachine \<Rightarrow> StateMachine" where
  "execute_mode_entry c mode sm = execute_state_behavior c mode sm"

definition execute_mode_exit :: "ADCSMode \<Rightarrow> StateMachine \<Rightarrow> StateMachine" where
  "execute_mode_exit mode sm = emit (Call_execute_mode_exit mode) sm"

subsection \<open>Transitions\<close>

text \<open>
  \<^verbatim>\<open>evaluate_transition_conditions\<close> (lines 131 to 156). \<^verbatim>\<open>previous_operational_mode\<close>
  is a local variable of the function, initialised from the current mode.
\<close>

definition evaluate_transition_conditions :: "collaborators \<Rightarrow> StateMachine \<Rightarrow> ADCSMode" where
  "evaluate_transition_conditions c sm =
     (let previous_operational_mode = current_mode (current_state sm) in
      case current_mode (current_state sm) of
        DETUMBLING \<Rightarrow>
          if is_angular_rate_stable c sm then SUN_ACQUISITION
          else current_mode (current_state sm)
      | SUN_ACQUISITION \<Rightarrow>
          if sun_vectors_aligned c sm then NOMINAL_POINTING
          else current_mode (current_state sm)
      | NOMINAL_POINTING \<Rightarrow> current_mode (current_state sm)
      | SAFE_MODE \<Rightarrow>
          if power_restored c sm then previous_operational_mode
          else current_mode (current_state sm)
      | FAULT_RECOVERY \<Rightarrow>
          if fault_recovery_complete c sm then previous_operational_mode
          else current_mode (current_state sm))"

definition check_state_transition :: "collaborators \<Rightarrow> StateMachine \<Rightarrow> StateMachine" where
  "check_state_transition c sm =
     (let new_mode = evaluate_transition_conditions c sm in
      if new_mode \<noteq> current_mode (current_state sm) then
        let sm1 = execute_mode_exit (current_mode (current_state sm)) sm;
            sm2 = set_current_mode new_mode sm1;
            sm3 = sm2\<lparr>current_state :=
                    (current_state sm2)\<lparr>mode_entry_time := ucast (get_current_time c)\<rparr>\<rparr>;
            sm4 = execute_mode_entry c new_mode sm3
        in save_persistent_state sm4
      else sm)"

subsection \<open>Faults\<close>

text \<open>
  \<^verbatim>\<open>handle_fault\<close> (lines 165 to 192). Its \<^verbatim>\<open>previous_operational_mode\<close> is again a
  local variable, assigned twice and not read. The switch has no case for \<^verbatim>\<open>NONE\<close>.
\<close>

definition handle_fault :: "FaultType \<Rightarrow> StateMachine \<Rightarrow> StateMachine" where
  "handle_fault fault sm =
     (let previous_operational_mode = current_mode (current_state sm) in
      case fault of
        HIGH_ANGULAR_RATE \<Rightarrow> set_current_mode DETUMBLING (emit Call_engage_magnetorquers sm)
      | LOW_POWER \<Rightarrow> set_current_mode SAFE_MODE (emit Call_power_system_slowdown sm)
      | SENSOR_ANOMALY \<Rightarrow> emit Call_reset_sensor_array sm
      | SOFTWARE_RESET_REQUIRED \<Rightarrow> emit Call_execute_software_reset sm
      | CRITICAL \<Rightarrow> emit Call_execute_hardware_reset sm
      | NONE \<Rightarrow> sm)"

definition manage_faults :: "collaborators \<Rightarrow> StateMachine \<Rightarrow> StateMachine" where
  "manage_faults c sm =
     (let fault = check_faults (check_sensors c) (current_state sm) in
      if fault \<noteq> NONE then handle_fault fault sm else sm)"

subsection \<open>The control cycle and the constructor\<close>

definition update_sensor_data :: "collaborators \<Rightarrow> StateMachine \<Rightarrow> StateMachine" where
  "update_sensor_data c sm =
     (let sm1 = emit Call_read_imu sm;
          sm2 = sm1\<lparr>current_state := (current_state sm1)\<lparr>angular_velocity := read_imu c\<rparr>\<rparr>;
          sm3 = emit Call_read_power_system sm2
      in sm3\<lparr>current_state := (current_state sm3)\<lparr>power_level := read_power_system c\<rparr>\<rparr>)"

definition check_for_software_reset :: "StateMachine \<Rightarrow> StateMachine" where
  "check_for_software_reset sm = emit Call_check_for_software_reset sm"

definition check_for_hardware_reset :: "StateMachine \<Rightarrow> StateMachine" where
  "check_for_hardware_reset sm = emit Call_check_for_hardware_reset sm"

definition refresh_watchdog :: "StateMachine \<Rightarrow> StateMachine" where
  "refresh_watchdog sm = emit Watchdog_refresh sm"

definition run_cycle :: "collaborators \<Rightarrow> StateMachine \<Rightarrow> StateMachine" where
  "run_cycle c sm =
     (let sm1 = update_sensor_data c sm;
          sm2 = check_state_transition c sm1;
          sm3 = execute_mode_entry c (current_mode (current_state sm2)) sm2;
          sm4 = check_for_software_reset sm3;
          sm5 = check_for_hardware_reset sm4;
          sm6 = manage_faults c sm5
      in refresh_watchdog sm6)"

text \<open>
  The constructor (lines 88 to 101). Its first statement calls the static
  \<^verbatim>\<open>read_persistent_state\<close>, whose body is left to the NVM layer; \<open>sm\<close> is the machine
  with \<^verbatim>\<open>current_state\<close> as that statement leaves it.
\<close>

definition StateMachine_ctor :: "collaborators \<Rightarrow> StateMachine \<Rightarrow> StateMachine" where
  "StateMachine_ctor c sm =
     (let sm1 =
        (if is_corrupt c sm (current_mode (current_state sm)) then set_current_mode SAFE_MODE sm
         else if \<not> is_state_safe c sm (current_mode (current_state sm)) then
           set_current_mode SAFE_MODE sm
         else set_current_mode DETUMBLING sm)
      in emit Watchdog_initialize sm1)"

text \<open>
  Modelled from the spec: the body of \<^verbatim>\<open>is_state_safe\<close>, which in the source is a
  comment. The spec's words: it returns false if the persisted angular velocity magnitude
  exceeds the high-angular-rate threshold, or the persisted power level is below the
  low-power threshold, or the persisted mode is \<^verbatim>\<open>SAFE_MODE\<close> or \<^verbatim>\<open>FAULT_RECOVERY\<close>.
  The two thresholds are the FaultManager's checks, applied to \<^verbatim>\<open>current_state\<close> (the
  record as read at boot); the mode is the argument the constructor passes.
\<close>

definition spec_is_state_safe :: "StateMachine \<Rightarrow> ADCSMode \<Rightarrow> bool" where
  "spec_is_state_safe sm mode =
     (\<not> (check_angular_rate (current_state sm) \<or>
         check_power_level (current_state sm) \<or>
         mode = SAFE_MODE \<or> mode = FAULT_RECOVERY))"

subsection \<open>Example inputs\<close>

text \<open>
  Concrete collaborators and machines for the evaluations below. The sensor values are
  those of the source's placeholder bodies (zero angular velocity, zero power, no sensor
  anomaly); the time is 100, no record is corrupt, the safety predicate is the one
  modelled above, and the four transition predicates answer yes.
  \<open>restored_collaborators\<close> differ in the power read, which is 5.0 W.
  \<open>example_machine mode w0 watts\<close> is a machine in \<open>mode\<close>, entered at time 7, with
  angular velocity \<open>[w0, 0, 0]\<close> and power level \<open>watts\<close>, that has produced no effects.
\<close>

definition example_collaborators :: collaborators where
  "example_collaborators =
     \<lparr>read_imu = (Finite 0, Finite 0, Finite 0),
      read_power_system = Finite 0,
      check_sensors = False,
      get_current_time = 100,
      is_corrupt = (\<lambda>sm mode. False),
      is_state_safe = spec_is_state_safe,
      is_angular_rate_stable = (\<lambda>sm. True),
      sun_vectors_aligned = (\<lambda>sm. True),
      power_restored = (\<lambda>sm. True),
      fault_recovery_complete = (\<lambda>sm. True)\<rparr>"

definition restored_collaborators :: collaborators where
  "restored_collaborators = example_collaborators\<lparr>read_power_system := Finite 5\<rparr>"

definition example_machine :: "ADCSMode \<Rightarrow> float32 \<Rightarrow> float32 \<Rightarrow> StateMachine" where
  "example_machine mode w0 watts =
     \<lparr>current_state =
        \<lparr>current_mode = mode, mode_entry_time = 7,
         angular_velocity = (w0, Finite 0, Finite 0), power_level = watts\<rparr>,
      trace = []\<rparr>"

section \<open>Basic facts\<close>

lemmas example_defs = example_collaborators_def example_machine_def

lemmas step_defs = update_sensor_data_def check_state_transition_def
  evaluate_transition_conditions_def execute_mode_entry_def execute_mode_exit_def
  execute_state_behavior_def run_detumbling_def run_sun_acquisition_def
  run_nominal_pointing_def run_safe_mode_def save_persistent_state_def
  NonVolatileMemory_write_def persistent_record_def manage_faults_def handle_fault_def check_faults_def
  check_angular_rate_def check_power_level_def fgreater_def MAX_ANGULAR_RATE_def
  LOW_POWER_THRESHOLD_def check_for_software_reset_def check_for_hardware_reset_def
  refresh_watchdog_def run_cycle_def emit_def set_current_mode_def emitted_def
  uint32_to_float_def

lemma trace_emit: "trace (emit e sm) = trace sm @ [e]"
  by (simp add: emit_def)

lemma current_state_emit: "current_state (emit e sm) = current_state sm"
  by (simp add: emit_def)

lemma emittedI: "trace (f sm) = trace sm @ es \<Longrightarrow> emitted f sm = es"
  by (simp add: emitted_def)

lemma trace_handle_fault:
  "trace (handle_fault fault sm) = trace sm @
     (case fault of
        HIGH_ANGULAR_RATE \<Rightarrow> [Call_engage_magnetorquers]
      | LOW_POWER \<Rightarrow> [Call_power_system_slowdown]
      | SENSOR_ANOMALY \<Rightarrow> [Call_reset_sensor_array]
      | SOFTWARE_RESET_REQUIRED \<Rightarrow> [Call_execute_software_reset]
      | CRITICAL \<Rightarrow> [Call_execute_hardware_reset]
      | NONE \<Rightarrow> [])"
  by (cases fault) (simp_all add: handle_fault_def emit_def set_current_mode_def)

lemma handle_fault_software_reset:
  "handle_fault SOFTWARE_RESET_REQUIRED sm = sm\<lparr>trace := trace sm @ [Call_execute_software_reset]\<rparr>"
  by (simp add: handle_fault_def emit_def)

lemma handle_fault_software_reset_iterated:
  "((handle_fault SOFTWARE_RESET_REQUIRED) ^^ n) sm =
     sm\<lparr>trace := trace sm @ replicate n Call_execute_software_reset\<rparr>"
proof (induction n)
  case 0
  show ?case by simp
next
  case (Suc n)
  have "((handle_fault SOFTWARE_RESET_REQUIRED) ^^ Suc n) sm =
      handle_fault SOFTWARE_RESET_REQUIRED (((handle_fault SOFTWARE_RESET_REQUIRED) ^^ n) sm)"
    by simp
  also have "\<dots> = handle_fault SOFTWARE_RESET_REQUIRED
      (sm\<lparr>trace := trace sm @ replicate n Call_execute_software_reset\<rparr>)"
    by (simp only: Suc.IH)
  also have "\<dots> = sm\<lparr>trace := trace sm @ replicate (Suc n) Call_execute_software_reset\<rparr>"
    by (simp add: handle_fault_software_reset replicate_append_same)
  finally show ?case .
qed

lemma handle_fault_sensor_anomaly:
  "handle_fault SENSOR_ANOMALY sm = sm\<lparr>trace := trace sm @ [Call_reset_sensor_array]\<rparr>"
  by (simp add: handle_fault_def emit_def)

lemma check_faults_range:
  "check_faults a s \<in> {NONE, HIGH_ANGULAR_RATE, LOW_POWER, SENSOR_ANOMALY}"
  by (simp add: check_faults_def)

lemma trace_manage_faults:
  "trace (manage_faults c sm) = trace sm @
     (case check_faults (check_sensors c) (current_state sm) of
        HIGH_ANGULAR_RATE \<Rightarrow> [Call_engage_magnetorquers]
      | LOW_POWER \<Rightarrow> [Call_power_system_slowdown]
      | SENSOR_ANOMALY \<Rightarrow> [Call_reset_sensor_array]
      | _ \<Rightarrow> [])"
  using check_faults_range [of "check_sensors c" "current_state sm"]
  by (auto simp: manage_faults_def trace_handle_fault Let_def)

lemma persistent_record_fields:
  "nvm_current_mode (persistent_record s) = current_mode s"
  "nvm_timestamp (persistent_record s) = uint32_to_float (mode_entry_time s)"
  "nvm_mode_entry_time (persistent_record s) = 0"
  "nvm_angular_velocity (persistent_record s) = (Finite 0, Finite 0, Finite 0)"
  "nvm_power_level (persistent_record s) = Finite 0"
  "nvm_checksum (persistent_record s) = Finite 0"
  by (simp_all add: persistent_record_def)

lemma save_persistent_state_eq:
  "save_persistent_state sm =
     sm\<lparr>trace := trace sm @ [NVM_write (persistent_record (current_state sm))]\<rparr>"
  by (simp add: persistent_record_def save_persistent_state_def NonVolatileMemory_write_def
      emit_def Let_def)

lemma trace_execute_state_behavior:
  "trace (execute_state_behavior c m sm) = trace sm @
     (case m of
        DETUMBLING \<Rightarrow> [Call_run_detumbling]
      | SUN_ACQUISITION \<Rightarrow> [Call_run_sun_acquisition]
      | NOMINAL_POINTING \<Rightarrow> [Call_run_nominal_pointing]
      | SAFE_MODE \<Rightarrow> [Call_run_safe_mode, NVM_write (persistent_record (current_state sm))]
      | FAULT_RECOVERY \<Rightarrow> [])"
  by (cases m) (simp_all add: execute_state_behavior_def run_detumbling_def
      run_sun_acquisition_def run_nominal_pointing_def run_safe_mode_def
      save_persistent_state_eq emit_def)

lemma current_state_execute_state_behavior:
  "current_state (execute_state_behavior c m sm) = current_state sm"
  by (cases m) (simp_all add: execute_state_behavior_def run_detumbling_def
      run_sun_acquisition_def run_nominal_pointing_def run_safe_mode_def
      save_persistent_state_eq emit_def)

lemma evaluate_transition_cases:
  "evaluate_transition_conditions c sm \<noteq> current_mode (current_state sm) \<Longrightarrow>
     (current_mode (current_state sm) = DETUMBLING \<and> is_angular_rate_stable c sm \<and>
      evaluate_transition_conditions c sm = SUN_ACQUISITION) \<or>
     (current_mode (current_state sm) = SUN_ACQUISITION \<and> sun_vectors_aligned c sm \<and>
      evaluate_transition_conditions c sm = NOMINAL_POINTING)"
  by (cases "current_mode (current_state sm)")
     (auto simp: evaluate_transition_conditions_def split: if_splits)

lemma ucast_time_exact:
  "uint32_to_float (ucast (t :: 16 word)) = Finite (of_int (uint t))"
proof -
  have b: "uint t < 2 ^ 16" using uint_bounded [of t] by simp
  have e: "uint (ucast t :: 32 word) = uint t"
    by (rule uint_up_ucast) (simp add: is_up)
  from b have "uint t < 2 ^ 24" by simp
  with e show ?thesis by (simp add: uint32_to_float_def)
qed

lemma trace_check_state_transition_stay:
  "evaluate_transition_conditions c sm = current_mode (current_state sm) \<Longrightarrow>
     check_state_transition c sm = sm"
  by (simp add: check_state_transition_def)

lemma check_state_transition_move:
  assumes "evaluate_transition_conditions c sm \<noteq> current_mode (current_state sm)"
  shows "current_state (check_state_transition c sm) =
           (current_state sm)\<lparr>current_mode := evaluate_transition_conditions c sm,
              mode_entry_time := ucast (get_current_time c)\<rparr>"
    and "trace (check_state_transition c sm) = trace sm @
           [Call_execute_mode_exit (current_mode (current_state sm)),
            (if evaluate_transition_conditions c sm = SUN_ACQUISITION
             then Call_run_sun_acquisition else Call_run_nominal_pointing),
            NVM_write (persistent_record (current_state (check_state_transition c sm)))]"
proof -
  from evaluate_transition_cases [OF assms]
  have new: "evaluate_transition_conditions c sm = SUN_ACQUISITION \<or>
             evaluate_transition_conditions c sm = NOMINAL_POINTING"
    by blast
  let ?n = "evaluate_transition_conditions c sm"
  let ?sm3 = "sm\<lparr>trace := trace sm @ [Call_execute_mode_exit (current_mode (current_state sm))],
               current_state := (current_state sm)\<lparr>current_mode := ?n,
                 mode_entry_time := ucast (get_current_time c)\<rparr>\<rparr>"
  have unfold: "check_state_transition c sm =
      save_persistent_state (execute_state_behavior c ?n ?sm3)"
    using assms
    by (simp add: check_state_transition_def Let_def execute_mode_exit_def emit_def
        set_current_mode_def execute_mode_entry_def)
  have cs: "current_state (execute_state_behavior c ?n ?sm3) = current_state ?sm3"
    by (rule current_state_execute_state_behavior)
  show st: "current_state (check_state_transition c sm) =
           (current_state sm)\<lparr>current_mode := ?n, mode_entry_time := ucast (get_current_time c)\<rparr>"
    by (simp add: unfold save_persistent_state_eq cs)
  show "trace (check_state_transition c sm) = trace sm @
           [Call_execute_mode_exit (current_mode (current_state sm)),
            (if ?n = SUN_ACQUISITION then Call_run_sun_acquisition else Call_run_nominal_pointing),
            NVM_write (persistent_record (current_state (check_state_transition c sm)))]"
    unfolding st using new
    by (auto simp: unfold save_persistent_state_eq trace_execute_state_behavior cs)
qed

lemma nvm_writes_append: "nvm_writes (a @ b) = nvm_writes a @ nvm_writes b"
  by (induction a rule: nvm_writes.induct) simp_all

lemma trace_emitted: "trace (f sm) = trace sm @ es \<Longrightarrow> trace (f sm) = trace sm @ emitted f sm"
  by (simp add: emitted_def)

lemma update_sensor_data_facts:
  "trace (update_sensor_data c sm) = trace sm @ [Call_read_imu, Call_read_power_system]"
  "current_mode (current_state (update_sensor_data c sm)) = current_mode (current_state sm)"
  "mode_entry_time (current_state (update_sensor_data c sm)) = mode_entry_time (current_state sm)"
  by (simp_all add: update_sensor_data_def emit_def Let_def)

lemma emitted_check_state_transition:
  "emitted (check_state_transition c) sm =
     (if evaluate_transition_conditions c sm = current_mode (current_state sm) then []
      else [Call_execute_mode_exit (current_mode (current_state sm)),
            (if evaluate_transition_conditions c sm = SUN_ACQUISITION
             then Call_run_sun_acquisition else Call_run_nominal_pointing),
            NVM_write (persistent_record (current_state (check_state_transition c sm)))])"
proof (cases "evaluate_transition_conditions c sm = current_mode (current_state sm)")
  case True
  then show ?thesis
    by (simp add: trace_check_state_transition_stay emitted_def)
next
  case False
  then show ?thesis
    by (simp add: emittedI [of "check_state_transition c" sm,
          OF check_state_transition_move(2) [OF False]])
qed

lemma trace_check_state_transition:
  "trace (check_state_transition c sm) = trace sm @ emitted (check_state_transition c) sm"
proof (cases "evaluate_transition_conditions c sm = current_mode (current_state sm)")
  case True
  then show ?thesis
    by (simp add: trace_check_state_transition_stay emitted_def)
next
  case False
  show ?thesis
    by (rule trace_emitted [of "check_state_transition c" sm])
       (rule check_state_transition_move(2) [OF False])
qed

lemma emitted_execute_mode_entry:
  "emitted (execute_mode_entry c m) sm =
     (case m of
        DETUMBLING \<Rightarrow> [Call_run_detumbling]
      | SUN_ACQUISITION \<Rightarrow> [Call_run_sun_acquisition]
      | NOMINAL_POINTING \<Rightarrow> [Call_run_nominal_pointing]
      | SAFE_MODE \<Rightarrow> [Call_run_safe_mode, NVM_write (persistent_record (current_state sm))]
      | FAULT_RECOVERY \<Rightarrow> [])"
proof (rule emittedI [of "execute_mode_entry c m" sm])
  have "execute_mode_entry c m = execute_state_behavior c m"
    by (rule ext) (simp add: execute_mode_entry_def)
  then show "trace (execute_mode_entry c m sm) = trace sm @
     (case m of
        DETUMBLING \<Rightarrow> [Call_run_detumbling]
      | SUN_ACQUISITION \<Rightarrow> [Call_run_sun_acquisition]
      | NOMINAL_POINTING \<Rightarrow> [Call_run_nominal_pointing]
      | SAFE_MODE \<Rightarrow> [Call_run_safe_mode, NVM_write (persistent_record (current_state sm))]
      | FAULT_RECOVERY \<Rightarrow> [])"
    by (simp add: trace_execute_state_behavior)
qed

lemma trace_execute_mode_entry:
  "trace (execute_mode_entry c m sm) = trace sm @ emitted (execute_mode_entry c m) sm"
  by (rule trace_emitted [of "execute_mode_entry c m" sm])
     (simp add: execute_mode_entry_def trace_execute_state_behavior)

lemma current_state_execute_mode_entry:
  "current_state (execute_mode_entry c m sm) = current_state sm"
  by (simp add: execute_mode_entry_def current_state_execute_state_behavior)

lemma emitted_manage_faults:
  "emitted (manage_faults c) sm =
     (case check_faults (check_sensors c) (current_state sm) of
        HIGH_ANGULAR_RATE \<Rightarrow> [Call_engage_magnetorquers]
      | LOW_POWER \<Rightarrow> [Call_power_system_slowdown]
      | SENSOR_ANOMALY \<Rightarrow> [Call_reset_sensor_array]
      | _ \<Rightarrow> [])"
  by (rule emittedI [of "manage_faults c" sm]) (rule trace_manage_faults)

lemma trace_manage_faults_emitted:
  "trace (manage_faults c sm) = trace sm @ emitted (manage_faults c) sm"
  by (rule trace_emitted [of "manage_faults c" sm]) (rule trace_manage_faults)

lemma emitted_run_cycle:
  assumes "sm1 = update_sensor_data c sm"
    and "sm2 = check_state_transition c sm1"
    and "sm3 = execute_mode_entry c (current_mode (current_state sm2)) sm2"
    and "sm5 = check_for_hardware_reset (check_for_software_reset sm3)"
  shows "emitted (run_cycle c) sm =
     [Call_read_imu, Call_read_power_system] @
     emitted (check_state_transition c) sm1 @
     emitted (execute_mode_entry c (current_mode (current_state sm2))) sm2 @
     [Call_check_for_software_reset, Call_check_for_hardware_reset] @
     emitted (manage_faults c) sm5 @
     [Watchdog_refresh]"
proof (rule emittedI [of "run_cycle c" sm])
  have t1: "trace sm1 = trace sm @ [Call_read_imu, Call_read_power_system]"
    by (simp add: assms(1) update_sensor_data_facts)
  have t2: "trace sm2 = trace sm1 @ emitted (check_state_transition c) sm1"
    unfolding assms(2) by (rule trace_check_state_transition)
  have t3: "trace sm3 = trace sm2 @
      emitted (execute_mode_entry c (current_mode (current_state sm2))) sm2"
    unfolding assms(3) by (rule trace_execute_mode_entry)
  have t5: "trace sm5 = trace sm3 @ [Call_check_for_software_reset, Call_check_for_hardware_reset]"
    by (simp add: assms(4) check_for_software_reset_def check_for_hardware_reset_def emit_def)
  have t6: "trace (manage_faults c sm5) = trace sm5 @ emitted (manage_faults c) sm5"
    by (rule trace_manage_faults_emitted)
  have rc: "run_cycle c sm = refresh_watchdog (manage_faults c sm5)"
    by (simp add: run_cycle_def Let_def assms)
  show "trace (run_cycle c sm) = trace sm @
     [Call_read_imu, Call_read_power_system] @
     emitted (check_state_transition c) sm1 @
     emitted (execute_mode_entry c (current_mode (current_state sm2))) sm2 @
     [Call_check_for_software_reset, Call_check_for_hardware_reset] @
     emitted (manage_faults c) sm5 @
     [Watchdog_refresh]"
    by (simp add: rc refresh_watchdog_def emit_def t6 t5 t3 t2 t1)
qed

lemma no_reset_in_steps:
  "Call_execute_software_reset \<notin> set (emitted (check_state_transition c) sm)"
  "Call_execute_software_reset \<notin> set (emitted (execute_mode_entry c m) sm)"
  "Call_execute_software_reset \<notin> set (emitted (manage_faults c) sm)"
  "Call_execute_hardware_reset \<notin> set (emitted (check_state_transition c) sm)"
  "Call_execute_hardware_reset \<notin> set (emitted (execute_mode_entry c m) sm)"
  "Call_execute_hardware_reset \<notin> set (emitted (manage_faults c) sm)"
  by (simp_all add: emitted_check_state_transition emitted_execute_mode_entry
      emitted_manage_faults split: ADCSMode.split FaultType.split)

lemma no_refresh_in_steps:
  "Watchdog_refresh \<notin> set (emitted (check_state_transition c) sm)"
  "Watchdog_refresh \<notin> set (emitted (execute_mode_entry c m) sm)"
  "Watchdog_refresh \<notin> set (emitted (manage_faults c) sm)"
  by (simp_all add: emitted_check_state_transition emitted_execute_mode_entry
      emitted_manage_faults split: ADCSMode.split FaultType.split)

lemma nvm_writes_steps:
  "nvm_writes (emitted (check_state_transition c) sm) =
     (if evaluate_transition_conditions c sm = current_mode (current_state sm) then []
      else [persistent_record (current_state (check_state_transition c sm))])"
  "nvm_writes (emitted (execute_mode_entry c m) sm) =
     (if m = SAFE_MODE then [persistent_record (current_state sm)] else [])"
  "nvm_writes (emitted (manage_faults c) sm) = []"
  by (simp_all add: emitted_check_state_transition emitted_execute_mode_entry
      emitted_manage_faults split: ADCSMode.split FaultType.split)

section \<open>Boot\<close>

text \<open>
  Claim C1. The constructor leaves the machine in \<^verbatim>\<open>SAFE_MODE\<close> when \<^verbatim>\<open>is_corrupt\<close>
  reports the record read at boot as corrupt, and also when \<^verbatim>\<open>is_state_safe\<close> rejects
  it; when the record is neither corrupt nor unsafe the machine starts in
  \<^verbatim>\<open>DETUMBLING\<close>, whatever mode the record holds. The boot mode is never any other mode.
  The two predicates are parameters: the source gives them no body.
\<close>

theorem boot_mode:
  "(is_corrupt c sm (current_mode (current_state sm)) \<longrightarrow>
      current_mode (current_state (StateMachine_ctor c sm)) = SAFE_MODE) \<and>
   (\<not> is_state_safe c sm (current_mode (current_state sm)) \<longrightarrow>
      current_mode (current_state (StateMachine_ctor c sm)) = SAFE_MODE) \<and>
   (\<not> is_corrupt c sm (current_mode (current_state sm)) \<and>
    is_state_safe c sm (current_mode (current_state sm)) \<longrightarrow>
      current_mode (current_state (StateMachine_ctor c sm)) = DETUMBLING) \<and>
   current_mode (current_state (StateMachine_ctor c sm)) \<in> {SAFE_MODE, DETUMBLING}"
  by (simp add: StateMachine_ctor_def set_current_mode_def emit_def)

theorem boot_mode_witness:
  "\<not> is_corrupt example_collaborators (example_machine NOMINAL_POINTING (Finite 0) (Finite 5)) NOMINAL_POINTING \<and>
   is_state_safe example_collaborators (example_machine NOMINAL_POINTING (Finite 0) (Finite 5)) NOMINAL_POINTING \<and>
   current_mode (current_state
     (StateMachine_ctor example_collaborators (example_machine NOMINAL_POINTING (Finite 0) (Finite 5)))) = DETUMBLING"
proof -
  have m: "current_mode (current_state (example_machine NOMINAL_POINTING (Finite 0) (Finite 5))) = NOMINAL_POINTING"
    by (simp add: example_machine_def)
  have a: "\<not> is_corrupt example_collaborators (example_machine NOMINAL_POINTING (Finite 0) (Finite 5)) NOMINAL_POINTING"
    by (simp add: example_collaborators_def)
  have b: "is_state_safe example_collaborators (example_machine NOMINAL_POINTING (Finite 0) (Finite 5)) NOMINAL_POINTING"
    by (simp add: example_collaborators_def spec_is_state_safe_def example_machine_def
        check_angular_rate_def check_power_level_def fgreater_def MAX_ANGULAR_RATE_def
        LOW_POWER_THRESHOLD_def)
  from a b m boot_mode [of example_collaborators "example_machine NOMINAL_POINTING (Finite 0) (Finite 5)"]
  show ?thesis by simp
qed

text \<open>
  Claim C2. With the safety predicate as the spec words it, \<^verbatim>\<open>is_state_safe\<close> is false
  exactly when an axis of the angular velocity exceeds the high-rate threshold, or the
  power level is below the low-power threshold, or the mode is \<^verbatim>\<open>SAFE_MODE\<close> or
  \<^verbatim>\<open>FAULT_RECOVERY\<close>. Consequently the constructor, given a record that is not corrupt
  and holds mode \<^verbatim>\<open>SAFE_MODE\<close>, zero angular velocity and power 5.0 (so that neither
  threshold check fires), boots into \<^verbatim>\<open>SAFE_MODE\<close>.
\<close>

theorem spec_is_state_safe_boot:
  "(spec_is_state_safe sm mode = False \<longleftrightarrow>
      check_angular_rate (current_state sm) \<or> check_power_level (current_state sm) \<or>
      mode = SAFE_MODE \<or> mode = FAULT_RECOVERY) \<and>
   (is_state_safe c = spec_is_state_safe \<and>
    \<not> is_corrupt c sm SAFE_MODE \<and>
    current_mode (current_state sm) = SAFE_MODE \<and>
    angular_velocity (current_state sm) = (Finite 0, Finite 0, Finite 0) \<and>
    power_level (current_state sm) = Finite 5 \<longrightarrow>
      \<not> check_angular_rate (current_state sm) \<and> \<not> check_power_level (current_state sm) \<and>
      current_mode (current_state (StateMachine_ctor c sm)) = SAFE_MODE)"
  by (auto simp: spec_is_state_safe_def StateMachine_ctor_def set_current_mode_def emit_def
      check_angular_rate_def check_power_level_def fgreater_def MAX_ANGULAR_RATE_def
      LOW_POWER_THRESHOLD_def)

theorem spec_is_state_safe_boot_witness:
  "is_state_safe example_collaborators = spec_is_state_safe \<and>
   \<not> is_corrupt example_collaborators (example_machine SAFE_MODE (Finite 0) (Finite 5)) SAFE_MODE \<and>
   current_mode (current_state
     (StateMachine_ctor example_collaborators (example_machine SAFE_MODE (Finite 0) (Finite 5)))) = SAFE_MODE"
proof -
  have a: "is_state_safe example_collaborators = spec_is_state_safe"
    "\<not> is_corrupt example_collaborators (example_machine SAFE_MODE (Finite 0) (Finite 5)) SAFE_MODE"
    by (simp_all add: example_collaborators_def)
  have b: "current_mode (current_state (example_machine SAFE_MODE (Finite 0) (Finite 5))) = SAFE_MODE"
    "angular_velocity (current_state (example_machine SAFE_MODE (Finite 0) (Finite 5))) = (Finite 0, Finite 0, Finite 0)"
    "power_level (current_state (example_machine SAFE_MODE (Finite 0) (Finite 5))) = Finite 5"
    by (simp_all add: example_machine_def)
  from a b spec_is_state_safe_boot [of "example_machine SAFE_MODE (Finite 0) (Finite 5)" SAFE_MODE example_collaborators]
  show ?thesis by simp
qed

section \<open>Resuming from SAFE_MODE and FAULT_RECOVERY\<close>

text \<open>
  Claim C3 asks that \<^verbatim>\<open>evaluate_transition_conditions\<close>, in \<^verbatim>\<open>SAFE_MODE\<close> with power
  restored, return the operational mode that was active before \<^verbatim>\<open>SAFE_MODE\<close> was
  entered. The code returns its local \<^verbatim>\<open>previous_operational_mode\<close>, which it has just
  set to the current mode: in \<^verbatim>\<open>SAFE_MODE\<close> the result is \<^verbatim>\<open>SAFE_MODE\<close> and in
  \<^verbatim>\<open>FAULT_RECOVERY\<close> it is \<^verbatim>\<open>FAULT_RECOVERY\<close>, whatever the predicates answer. In
  the spec's scenario, fault management at 3.9 W in \<^verbatim>\<open>NOMINAL_POINTING\<close> forces
  \<^verbatim>\<open>SAFE_MODE\<close>; in the next cycle, with 5.0 W read and power reported as restored, the
  candidate mode is \<^verbatim>\<open>SAFE_MODE\<close>, not \<^verbatim>\<open>NOMINAL_POINTING\<close>, and the cycle ends in
  \<^verbatim>\<open>SAFE_MODE\<close>.
\<close>

theorem resume_returns_current_mode:
  "evaluate_transition_conditions c (set_current_mode SAFE_MODE sm) = SAFE_MODE \<and>
   evaluate_transition_conditions c (set_current_mode FAULT_RECOVERY sm) = FAULT_RECOVERY \<and>
   current_mode (current_state
     (manage_faults example_collaborators
        (example_machine NOMINAL_POINTING (Finite 0) (Finite (39 / 10))))) = SAFE_MODE \<and>
   power_restored restored_collaborators
     (update_sensor_data restored_collaborators
        (manage_faults example_collaborators
           (example_machine NOMINAL_POINTING (Finite 0) (Finite (39 / 10))))) \<and>
   evaluate_transition_conditions restored_collaborators
     (update_sensor_data restored_collaborators
        (manage_faults example_collaborators
           (example_machine NOMINAL_POINTING (Finite 0) (Finite (39 / 10))))) = SAFE_MODE \<and>
   current_state
     (run_cycle restored_collaborators
        (manage_faults example_collaborators
           (example_machine NOMINAL_POINTING (Finite 0) (Finite (39 / 10))))) =
     \<lparr>current_mode = SAFE_MODE, mode_entry_time = 7,
      angular_velocity = (Finite 0, Finite 0, Finite 0), power_level = Finite 5\<rparr>"
  by (simp add: step_defs example_defs restored_collaborators_def Let_def)

text \<open>
  Claim C4 asks that \<^verbatim>\<open>handle_fault\<close> keep the mode that was active before it forces
  \<^verbatim>\<open>SAFE_MODE\<close>, in state that survives until the resume transition. The code assigns
  that mode to a local variable only: the machine after a low-power fault is the same
  whichever mode was active before, so nothing of the earlier mode is left. In the spec's
  scenario the machine after the fault holds \<^verbatim>\<open>SAFE_MODE\<close> and no trace of
  \<^verbatim>\<open>NOMINAL_POINTING\<close>, and equals the machine that a fault in \<^verbatim>\<open>DETUMBLING\<close> leaves.
\<close>

theorem handle_fault_forgets_previous_mode:
  "handle_fault LOW_POWER (set_current_mode m sm) = handle_fault LOW_POWER (set_current_mode m' sm) \<and>
   handle_fault LOW_POWER (example_machine NOMINAL_POINTING (Finite 0) (Finite (39 / 10))) =
     \<lparr>current_state =
        \<lparr>current_mode = SAFE_MODE, mode_entry_time = 7,
         angular_velocity = (Finite 0, Finite 0, Finite 0), power_level = Finite (39 / 10)\<rparr>,
      trace = [Call_power_system_slowdown]\<rparr> \<and>
   handle_fault LOW_POWER (example_machine NOMINAL_POINTING (Finite 0) (Finite (39 / 10))) =
   handle_fault LOW_POWER (set_current_mode DETUMBLING (example_machine NOMINAL_POINTING (Finite 0) (Finite (39 / 10))))"
  by (simp add: set_current_mode_def handle_fault_def emit_def example_machine_def)

section \<open>Fault classification\<close>

text \<open>
  Claim C6. \<^verbatim>\<open>check_faults\<close> tries the faults in the order high angular rate, low power,
  sensor anomaly and returns the first that holds: a high angular rate wins whatever the
  power level and the sensors say, low power wins over a sensor anomaly, and \<^verbatim>\<open>NONE\<close> is
  returned only when no check fires. In particular every state with angular velocity
  \<open>[0.2, 0, 0]\<close> rad/s (the decimal \<open>1/5\<close> or the single-precision value of \<^verbatim>\<open>0.2f\<close>) and
  power level \<open>3.5\<close> W has both a high angular rate and low power, and is classified
  \<^verbatim>\<open>HIGH_ANGULAR_RATE\<close>.
\<close>

theorem check_faults_first_match:
  "(check_angular_rate s \<longrightarrow> check_faults a s = HIGH_ANGULAR_RATE) \<and>
   (\<not> check_angular_rate s \<and> check_power_level s \<longrightarrow> check_faults a s = LOW_POWER) \<and>
   (\<not> check_angular_rate s \<and> \<not> check_power_level s \<and> a \<longrightarrow>
      check_faults a s = SENSOR_ANOMALY) \<and>
   (\<not> check_angular_rate s \<and> \<not> check_power_level s \<and> \<not> a \<longrightarrow> check_faults a s = NONE) \<and>
   ((w = Finite (1 / 5) \<or> w = Finite (13421773 / 67108864)) \<and>
    angular_velocity s = (w, Finite 0, Finite 0) \<and> power_level s = Finite (7 / 2) \<longrightarrow>
      check_angular_rate s \<and> check_power_level s \<and> check_faults a s = HIGH_ANGULAR_RATE)"
  by (auto simp: check_faults_def check_angular_rate_def check_power_level_def fgreater_def
      MAX_ANGULAR_RATE_def LOW_POWER_THRESHOLD_def)

theorem check_faults_first_match_witness:
  "check_angular_rate \<lparr>current_mode = NOMINAL_POINTING, mode_entry_time = 0,
      angular_velocity = (Finite (1 / 5), Finite 0, Finite 0), power_level = Finite (7 / 2)\<rparr> \<and>
   check_power_level \<lparr>current_mode = NOMINAL_POINTING, mode_entry_time = 0,
      angular_velocity = (Finite (1 / 5), Finite 0, Finite 0), power_level = Finite (7 / 2)\<rparr> \<and>
   check_faults False \<lparr>current_mode = NOMINAL_POINTING, mode_entry_time = 0,
      angular_velocity = (Finite (1 / 5), Finite 0, Finite 0), power_level = Finite (7 / 2)\<rparr>
     = HIGH_ANGULAR_RATE"
  using check_faults_first_match [of "\<lparr>current_mode = NOMINAL_POINTING, mode_entry_time = 0,
      angular_velocity = (Finite (1 / 5), Finite 0, Finite 0), power_level = Finite (7 / 2)\<rparr>"
      False "Finite (1 / 5)"]
  by simp

text \<open>
  Claim C10. For every state and every answer of the sensor check, \<^verbatim>\<open>check_faults\<close>
  returns one of \<^verbatim>\<open>NONE\<close>, \<^verbatim>\<open>HIGH_ANGULAR_RATE\<close>, \<^verbatim>\<open>LOW_POWER\<close> and \<^verbatim>\<open>SENSOR_ANOMALY\<close>,
  never \<^verbatim>\<open>SOFTWARE_RESET_REQUIRED\<close> or \<^verbatim>\<open>CRITICAL\<close>; so \<^verbatim>\<open>manage_faults\<close>, the fault
  step of the cycle, never runs the software reset or the hardware reset of
  \<^verbatim>\<open>handle_fault\<close>, and neither does a whole control cycle.
\<close>

theorem check_faults_never_reset:
  "check_faults a s \<in> {NONE, HIGH_ANGULAR_RATE, LOW_POWER, SENSOR_ANOMALY} \<and>
   check_faults a s \<noteq> SOFTWARE_RESET_REQUIRED \<and> check_faults a s \<noteq> CRITICAL \<and>
   Call_execute_software_reset \<notin> set (emitted (manage_faults c) sm) \<and>
   Call_execute_hardware_reset \<notin> set (emitted (manage_faults c) sm) \<and>
   Call_execute_software_reset \<notin> set (emitted (run_cycle c) sm) \<and>
   Call_execute_hardware_reset \<notin> set (emitted (run_cycle c) sm)"
proof -
  have r: "check_faults a s \<in> {NONE, HIGH_ANGULAR_RATE, LOW_POWER, SENSOR_ANOMALY}"
    by (rule check_faults_range)
  then have n: "check_faults a s \<noteq> SOFTWARE_RESET_REQUIRED" "check_faults a s \<noteq> CRITICAL"
    by auto
  have cyc: "Call_execute_software_reset \<notin> set (emitted (run_cycle c) sm)"
    "Call_execute_hardware_reset \<notin> set (emitted (run_cycle c) sm)"
    by (simp_all add: emitted_run_cycle [OF refl refl refl refl] no_reset_in_steps)
  from r n cyc no_reset_in_steps(3) [of c sm] no_reset_in_steps(6) [of c sm]
  show ?thesis by blast
qed

section \<open>Reset escalation\<close>

text \<open>
  Claim C7 asks for a counter of consecutive software resets that turns the fourth
  occurrence into a hardware reset. In the code every \<^verbatim>\<open>SOFTWARE_RESET_REQUIRED\<close> fault
  runs \<^verbatim>\<open>execute_software_reset\<close>, however many came before: \<open>n\<close> faults in a row give
  \<open>n\<close> software resets and leave the state as it was, so nothing is counted. Four in a row give four software resets and no hardware reset; four sensor
  anomalies in a row give four sensor-array resets.
\<close>

theorem software_reset_never_escalates:
  "trace (((handle_fault SOFTWARE_RESET_REQUIRED) ^^ n) sm) =
     trace sm @ replicate n Call_execute_software_reset \<and>
   current_state (((handle_fault SOFTWARE_RESET_REQUIRED) ^^ n) sm) = current_state sm \<and>
   emitted ((handle_fault SOFTWARE_RESET_REQUIRED) ^^ 4) (example_machine NOMINAL_POINTING (Finite 0) (Finite 5)) =
     [Call_execute_software_reset, Call_execute_software_reset,
      Call_execute_software_reset, Call_execute_software_reset] \<and>
   emitted ((handle_fault SENSOR_ANOMALY) ^^ 4) (example_machine NOMINAL_POINTING (Finite 0) (Finite 5)) =
     [Call_reset_sensor_array, Call_reset_sensor_array,
      Call_reset_sensor_array, Call_reset_sensor_array]"
proof -
  have four: "(f ^^ 4) x = f (f (f (f x)))" for f :: "StateMachine \<Rightarrow> StateMachine" and x
    by (simp add: eval_nat_numeral)
  have a: "trace (((handle_fault SOFTWARE_RESET_REQUIRED) ^^ n) sm) =
      trace sm @ replicate n Call_execute_software_reset"
    by (simp only: handle_fault_software_reset_iterated) simp
  have b: "current_state (((handle_fault SOFTWARE_RESET_REQUIRED) ^^ n) sm) = current_state sm"
    by (simp only: handle_fault_software_reset_iterated) simp
  have d: "emitted ((handle_fault SOFTWARE_RESET_REQUIRED) ^^ 4) (example_machine NOMINAL_POINTING (Finite 0) (Finite 5)) =
     [Call_execute_software_reset, Call_execute_software_reset,
      Call_execute_software_reset, Call_execute_software_reset]"
    by (rule emittedI) (simp only: four handle_fault_software_reset, simp)
  have e: "emitted ((handle_fault SENSOR_ANOMALY) ^^ 4) (example_machine NOMINAL_POINTING (Finite 0) (Finite 5)) =
     [Call_reset_sensor_array, Call_reset_sensor_array,
      Call_reset_sensor_array, Call_reset_sensor_array]"
    by (rule emittedI) (simp only: four handle_fault_sensor_anomaly, simp)
  from a b d e show ?thesis by blast
qed

section \<open>Writes to persistent storage\<close>

text \<open>
  Claim C5 says that a cycle whose candidate mode equals the current mode never writes to
  the persistent store. A cycle spent in \<^verbatim>\<open>SAFE_MODE\<close> refutes it: the candidate is
  \<^verbatim>\<open>SAFE_MODE\<close>, the current mode, and \<^verbatim>\<open>run_safe_mode\<close> writes the state once.
\<close>

theorem safe_mode_cycle_writes:
  "evaluate_transition_conditions example_collaborators
     (update_sensor_data example_collaborators (example_machine SAFE_MODE (Finite 0) (Finite 5))) =
   current_mode (current_state
     (update_sensor_data example_collaborators (example_machine SAFE_MODE (Finite 0) (Finite 5)))) \<and>
   nvm_writes (emitted (run_cycle example_collaborators)
     (example_machine SAFE_MODE (Finite 0) (Finite 5))) =
     [\<lparr>nvm_current_mode = SAFE_MODE, nvm_mode_entry_time = 0,
       nvm_angular_velocity = (Finite 0, Finite 0, Finite 0), nvm_power_level = Finite 0,
       nvm_timestamp = Finite 7, nvm_checksum = Finite 0\<rparr>]"
  by (simp add: step_defs example_defs Let_def)

text \<open>
  Claim C5 as amended. \<^verbatim>\<open>check_state_transition\<close> writes only on a transition, and the
  \<^verbatim>\<open>SAFE_MODE\<close> routine writes once each time it runs. So a cycle whose candidate mode
  equals the current mode, that mode not being \<^verbatim>\<open>SAFE_MODE\<close>, writes nothing; a cycle in
  \<^verbatim>\<open>SAFE_MODE\<close> (where the candidate is always \<^verbatim>\<open>SAFE_MODE\<close>) writes exactly once; and
  a cycle with a transition writes exactly once: the write is the last effect of
  \<^verbatim>\<open>check_state_transition\<close>, after the exit and the entry routine, and the record is
  built from the state that already holds the new mode and the new entry time.
\<close>

theorem persistent_writes_per_cycle:
  "let sm1 = update_sensor_data c sm;
       candidate = evaluate_transition_conditions c sm1;
       sm2 = check_state_transition c sm1
   in (candidate = current_mode (current_state sm1) \<longrightarrow>
         emitted (check_state_transition c) sm1 = []) \<and>
      (candidate = current_mode (current_state sm1) \<and> current_mode (current_state sm1) \<noteq> SAFE_MODE \<longrightarrow>
         nvm_writes (emitted (run_cycle c) sm) = []) \<and>
      (current_mode (current_state sm1) = SAFE_MODE \<longrightarrow>
         candidate = SAFE_MODE \<and>
         nvm_writes (emitted (run_cycle c) sm) = [persistent_record (current_state sm1)]) \<and>
      (candidate \<noteq> current_mode (current_state sm1) \<longrightarrow>
         nvm_writes (emitted (run_cycle c) sm) = [persistent_record (current_state sm2)] \<and>
         emitted (check_state_transition c) sm1 =
           [Call_execute_mode_exit (current_mode (current_state sm1)),
            (if candidate = SUN_ACQUISITION then Call_run_sun_acquisition
             else Call_run_nominal_pointing),
            NVM_write (persistent_record (current_state sm2))] \<and>
         current_mode (current_state sm2) = candidate \<and>
         mode_entry_time (current_state sm2) = ucast (get_current_time c) \<and>
         nvm_current_mode (persistent_record (current_state sm2)) = candidate \<and>
         nvm_timestamp (persistent_record (current_state sm2)) =
           Finite (of_int (uint (get_current_time c))))"
proof -
  define sm1 where "sm1 = update_sensor_data c sm"
  define sm2 where "sm2 = check_state_transition c sm1"
  define sm3 where "sm3 = execute_mode_entry c (current_mode (current_state sm2)) sm2"
  define sm5 where "sm5 = check_for_hardware_reset (check_for_software_reset sm3)"
  define cand where "cand = evaluate_transition_conditions c sm1"
  have w: "nvm_writes (emitted (run_cycle c) sm) =
      nvm_writes (emitted (check_state_transition c) sm1) @
      nvm_writes (emitted (execute_mode_entry c (current_mode (current_state sm2))) sm2)"
    by (simp add: emitted_run_cycle [OF sm1_def sm2_def sm3_def sm5_def] nvm_writes_append
        nvm_writes_steps(3))
  have stay: "emitted (check_state_transition c) sm1 = []" "sm2 = sm1"
    if "cand = current_mode (current_state sm1)"
    using that by (simp_all add: emitted_check_state_transition cand_def sm2_def
        trace_check_state_transition_stay)
  have a: "nvm_writes (emitted (run_cycle c) sm) = []"
    if "cand = current_mode (current_state sm1)" "current_mode (current_state sm1) \<noteq> SAFE_MODE"
    using that stay by (simp add: w nvm_writes_steps(2))
  have b: "cand = SAFE_MODE \<and>
      nvm_writes (emitted (run_cycle c) sm) = [persistent_record (current_state sm1)]"
    if m: "current_mode (current_state sm1) = SAFE_MODE"
  proof -
    have c1: "cand = SAFE_MODE"
      using m by (simp add: cand_def evaluate_transition_conditions_def)
    with m stay have "sm2 = sm1" "emitted (check_state_transition c) sm1 = []" by simp_all
    with m show ?thesis
      by (simp add: w c1 nvm_writes_steps(2))
  qed
  have d: "nvm_writes (emitted (run_cycle c) sm) = [persistent_record (current_state sm2)] \<and>
         emitted (check_state_transition c) sm1 =
           [Call_execute_mode_exit (current_mode (current_state sm1)),
            (if cand = SUN_ACQUISITION then Call_run_sun_acquisition
             else Call_run_nominal_pointing),
            NVM_write (persistent_record (current_state sm2))] \<and>
         current_mode (current_state sm2) = cand \<and>
         mode_entry_time (current_state sm2) = ucast (get_current_time c) \<and>
         nvm_current_mode (persistent_record (current_state sm2)) = cand \<and>
         nvm_timestamp (persistent_record (current_state sm2)) =
           Finite (of_int (uint (get_current_time c)))"
    if ne: "cand \<noteq> current_mode (current_state sm1)"
  proof -
    from ne have ne': "evaluate_transition_conditions c sm1 \<noteq> current_mode (current_state sm1)"
      by (simp add: cand_def)
    note mv = check_state_transition_move [OF ne']
    from evaluate_transition_cases [OF ne']
    have new: "cand = SUN_ACQUISITION \<or> cand = NOMINAL_POINTING"
      by (auto simp: cand_def)
    have m2: "current_mode (current_state sm2) = cand"
      by (simp add: sm2_def mv(1) cand_def)
    have t2: "mode_entry_time (current_state sm2) = ucast (get_current_time c)"
      by (simp add: sm2_def mv(1))
    have "nvm_writes (emitted (execute_mode_entry c (current_mode (current_state sm2))) sm2) = []"
      using new by (auto simp: m2 nvm_writes_steps(2))
    then have "nvm_writes (emitted (run_cycle c) sm) = [persistent_record (current_state sm2)]"
      using ne' by (simp add: w nvm_writes_steps(1) sm2_def)
    moreover have "emitted (check_state_transition c) sm1 =
           [Call_execute_mode_exit (current_mode (current_state sm1)),
            (if cand = SUN_ACQUISITION then Call_run_sun_acquisition
             else Call_run_nominal_pointing),
            NVM_write (persistent_record (current_state sm2))]"
      using ne' by (simp add: emitted_check_state_transition cand_def sm2_def)
    ultimately show ?thesis
      by (simp add: m2 t2 persistent_record_fields ucast_time_exact)
  qed
  from stay(1) a b d show ?thesis
    unfolding Let_def sm1_def sm2_def cand_def by blast
qed

theorem persistent_writes_per_cycle_witness:
  "nvm_writes (emitted (run_cycle example_collaborators)
     (example_machine NOMINAL_POINTING (Finite 0) (Finite 5))) = [] \<and>
   length (nvm_writes (emitted (run_cycle example_collaborators)
     (example_machine SAFE_MODE (Finite 0) (Finite 5)))) = 1 \<and>
   evaluate_transition_conditions example_collaborators
     (update_sensor_data example_collaborators (example_machine DETUMBLING (Finite 0) (Finite 5))) =
     SUN_ACQUISITION \<and>
   length (nvm_writes (emitted (run_cycle example_collaborators)
     (example_machine DETUMBLING (Finite 0) (Finite 5)))) = 1 \<and>
   nvm_timestamp (persistent_record (current_state (check_state_transition example_collaborators
     (update_sensor_data example_collaborators (example_machine DETUMBLING (Finite 0) (Finite 5)))))) =
     Finite 100"
proof -
  have n: "current_mode (current_state (update_sensor_data example_collaborators
        (example_machine NOMINAL_POINTING (Finite 0) (Finite 5)))) = NOMINAL_POINTING"
      "evaluate_transition_conditions example_collaborators (update_sensor_data example_collaborators
        (example_machine NOMINAL_POINTING (Finite 0) (Finite 5))) = NOMINAL_POINTING"
    by (simp_all add: update_sensor_data_def evaluate_transition_conditions_def emit_def
        example_defs Let_def)
  have s: "current_mode (current_state (update_sensor_data example_collaborators
        (example_machine SAFE_MODE (Finite 0) (Finite 5)))) = SAFE_MODE"
    by (simp add: update_sensor_data_def emit_def example_defs Let_def)
  have d: "current_mode (current_state (update_sensor_data example_collaborators
        (example_machine DETUMBLING (Finite 0) (Finite 5)))) = DETUMBLING"
      "evaluate_transition_conditions example_collaborators (update_sensor_data example_collaborators
        (example_machine DETUMBLING (Finite 0) (Finite 5))) = SUN_ACQUISITION"
      "uint (get_current_time example_collaborators) = 100"
    by (simp_all add: update_sensor_data_def evaluate_transition_conditions_def emit_def
        example_defs Let_def)
  from n s d
    persistent_writes_per_cycle [of example_collaborators "example_machine NOMINAL_POINTING (Finite 0) (Finite 5)"]
    persistent_writes_per_cycle [of example_collaborators "example_machine SAFE_MODE (Finite 0) (Finite 5)"]
    persistent_writes_per_cycle [of example_collaborators "example_machine DETUMBLING (Finite 0) (Finite 5)"]
  show ?thesis by (simp add: Let_def)
qed

text \<open>
  Claim C9 asks that the record written on a transition carry every field of the state
  (mode, entry time, angular velocity, power level, write time) with a checksum over
  them. \<^verbatim>\<open>NonVolatileMemory::ADCSState\<close> declares those fields, but
  \<^verbatim>\<open>save_persistent_state\<close> names only \<^verbatim>\<open>current_mode\<close> and \<^verbatim>\<open>timestamp\<close> in its
  initialiser: every record it passes to the write has entry time 0, zero angular
  velocity, zero power and 0 in the checksum field, whatever the state holds. On a
  transition from \<^verbatim>\<open>DETUMBLING\<close> at time 100, with angular velocity \<open>[0.05, 0, 0]\<close> and
  power 5.0, the state afterwards holds entry time 100, that angular velocity and that
  power, while the one record written holds entry time 0, zero angular velocity and zero
  power.
\<close>

theorem transition_write_misses_fields:
  "nvm_writes (emitted save_persistent_state sm) = [persistent_record (current_state sm)] \<and>
   nvm_mode_entry_time (persistent_record s) = 0 \<and>
   nvm_angular_velocity (persistent_record s) = (Finite 0, Finite 0, Finite 0) \<and>
   nvm_power_level (persistent_record s) = Finite 0 \<and>
   nvm_checksum (persistent_record s) = Finite 0 \<and>
   current_state (check_state_transition example_collaborators
      (example_machine DETUMBLING (Finite (1 / 20)) (Finite 5))) =
     \<lparr>current_mode = SUN_ACQUISITION, mode_entry_time = 100,
      angular_velocity = (Finite (1 / 20), Finite 0, Finite 0), power_level = Finite 5\<rparr> \<and>
   nvm_writes (emitted (check_state_transition example_collaborators)
      (example_machine DETUMBLING (Finite (1 / 20)) (Finite 5))) =
     [\<lparr>nvm_current_mode = SUN_ACQUISITION, nvm_mode_entry_time = 0,
       nvm_angular_velocity = (Finite 0, Finite 0, Finite 0), nvm_power_level = Finite 0,
       nvm_timestamp = Finite 100, nvm_checksum = Finite 0\<rparr>] \<and>
   nvm_mode_entry_time (hd (nvm_writes (emitted (check_state_transition example_collaborators)
      (example_machine DETUMBLING (Finite (1 / 20)) (Finite 5))))) \<noteq>
     mode_entry_time (current_state (check_state_transition example_collaborators
      (example_machine DETUMBLING (Finite (1 / 20)) (Finite 5)))) \<and>
   nvm_angular_velocity (hd (nvm_writes (emitted (check_state_transition example_collaborators)
      (example_machine DETUMBLING (Finite (1 / 20)) (Finite 5))))) \<noteq>
     angular_velocity (current_state (check_state_transition example_collaborators
      (example_machine DETUMBLING (Finite (1 / 20)) (Finite 5)))) \<and>
   nvm_power_level (hd (nvm_writes (emitted (check_state_transition example_collaborators)
      (example_machine DETUMBLING (Finite (1 / 20)) (Finite 5))))) \<noteq>
     power_level (current_state (check_state_transition example_collaborators
      (example_machine DETUMBLING (Finite (1 / 20)) (Finite 5))))"
proof -
  have "emitted save_persistent_state sm = [NVM_write (persistent_record (current_state sm))]"
    by (rule emittedI [of save_persistent_state sm]) (simp add: save_persistent_state_eq)
  then have g: "nvm_writes (emitted save_persistent_state sm) = [persistent_record (current_state sm)]"
    by simp
  show ?thesis
    unfolding g by (simp add: persistent_record_fields) (simp add: step_defs example_defs Let_def)
qed

section \<open>Order of the control cycle\<close>

text \<open>
  Claim C8. The effects of one \<^verbatim>\<open>run_cycle\<close> are, in this order: the two sensor reads,
  the effects of the transition check, those of the mode routine of the mode then
  current, the software and the hardware reset check, the effects of fault management
  (run on the state those steps leave), and last one watchdog refresh. An execution that
  stops inside an earlier step has produced a proper prefix of these effects, and no
  proper prefix contains a watchdog refresh.
\<close>

theorem run_cycle_order:
  "let sm1 = update_sensor_data c sm;
       sm2 = check_state_transition c sm1;
       sm3 = execute_mode_entry c (current_mode (current_state sm2)) sm2;
       sm5 = check_for_hardware_reset (check_for_software_reset sm3)
   in emitted (update_sensor_data c) sm = [Call_read_imu, Call_read_power_system] \<and>
      emitted (run_cycle c) sm =
        emitted (update_sensor_data c) sm @
        emitted (check_state_transition c) sm1 @
        emitted (execute_mode_entry c (current_mode (current_state sm2))) sm2 @
        [Call_check_for_software_reset, Call_check_for_hardware_reset] @
        emitted (manage_faults c) sm5 @
        [Watchdog_refresh] \<and>
      run_cycle c sm = refresh_watchdog (manage_faults c sm5) \<and>
      (\<forall>p. strict_prefix p (emitted (run_cycle c) sm) \<longrightarrow> Watchdog_refresh \<notin> set p)"
proof -
  define sm1 where "sm1 = update_sensor_data c sm"
  define sm2 where "sm2 = check_state_transition c sm1"
  define sm3 where "sm3 = execute_mode_entry c (current_mode (current_state sm2)) sm2"
  define sm5 where "sm5 = check_for_hardware_reset (check_for_software_reset sm3)"
  define pre where "pre =
    [Call_read_imu, Call_read_power_system] @
    emitted (check_state_transition c) sm1 @
    emitted (execute_mode_entry c (current_mode (current_state sm2))) sm2 @
    [Call_check_for_software_reset, Call_check_for_hardware_reset] @
    emitted (manage_faults c) sm5"
  have s: "emitted (update_sensor_data c) sm = [Call_read_imu, Call_read_power_system]"
    by (rule emittedI [of "update_sensor_data c" sm]) (rule update_sensor_data_facts(1))
  have e: "emitted (run_cycle c) sm = pre @ [Watchdog_refresh]"
    unfolding pre_def using emitted_run_cycle [OF sm1_def sm2_def sm3_def sm5_def] by simp
  have n: "Watchdog_refresh \<notin> set pre"
    by (simp add: pre_def no_refresh_in_steps)
  have p: "Watchdog_refresh \<notin> set p" if "strict_prefix p (emitted (run_cycle c) sm)" for p
  proof -
    from that have "prefix p pre"
      unfolding e by (auto simp: strict_prefix_def)
    then have "set p \<subseteq> set pre" by (rule set_mono_prefix)
    with n show ?thesis by blast
  qed
  have rc: "run_cycle c sm = refresh_watchdog (manage_faults c sm5)"
    by (simp add: run_cycle_def Let_def sm1_def sm2_def sm3_def sm5_def)
  from s e p rc show ?thesis
    unfolding Let_def pre_def sm1_def sm2_def sm3_def sm5_def by simp
qed

theorem run_cycle_order_witness:
  "emitted (run_cycle example_collaborators) (example_machine NOMINAL_POINTING (Finite 0) (Finite 5)) =
     [Call_read_imu, Call_read_power_system, Call_run_nominal_pointing,
      Call_check_for_software_reset, Call_check_for_hardware_reset,
      Call_power_system_slowdown, Watchdog_refresh] \<and>
   strict_prefix
     [Call_read_imu, Call_read_power_system, Call_run_nominal_pointing,
      Call_check_for_software_reset, Call_check_for_hardware_reset, Call_power_system_slowdown]
     (emitted (run_cycle example_collaborators) (example_machine NOMINAL_POINTING (Finite 0) (Finite 5))) \<and>
   Watchdog_refresh \<notin> set
     [Call_read_imu, Call_read_power_system, Call_run_nominal_pointing,
      Call_check_for_software_reset, Call_check_for_hardware_reset, Call_power_system_slowdown]"
proof -
  have e: "emitted (run_cycle example_collaborators)
      (example_machine NOMINAL_POINTING (Finite 0) (Finite 5)) =
     [Call_read_imu, Call_read_power_system, Call_run_nominal_pointing,
      Call_check_for_software_reset, Call_check_for_hardware_reset,
      Call_power_system_slowdown, Watchdog_refresh]"
    by (simp add: step_defs example_defs Let_def)
  have p: "strict_prefix
     [Call_read_imu, Call_read_power_system, Call_run_nominal_pointing,
      Call_check_for_software_reset, Call_check_for_hardware_reset, Call_power_system_slowdown]
     (emitted (run_cycle example_collaborators) (example_machine NOMINAL_POINTING (Finite 0) (Finite 5)))"
    unfolding e by (simp add: strict_prefix_def)
  have "\<forall>q. strict_prefix q (emitted (run_cycle example_collaborators)
      (example_machine NOMINAL_POINTING (Finite 0) (Finite 5))) \<longrightarrow> Watchdog_refresh \<notin> set q"
    using run_cycle_order [of example_collaborators "example_machine NOMINAL_POINTING (Finite 0) (Finite 5)"]
    unfolding Let_def by blast
  with p have "Watchdog_refresh \<notin> set
     [Call_read_imu, Call_read_power_system, Call_run_nominal_pointing,
      Call_check_for_software_reset, Call_check_for_hardware_reset, Call_power_system_slowdown]"
    by blast
  with e p show ?thesis by blast
qed

end
